theory Spec2Isabelle
  imports Main
begin

section \<open>Values of the program\<close>

text \<open>
  The program \<^verbatim>\<open>main.py\<close> joins a wireless network, samples a DHT11 sensor and posts
  each reading to InfluxDB. Its collaborators (the file system and the JSON parser, the
  radio, the clock, the sensor driver and the HTTP client) are libraries outside the
  repository: each call into them is modelled by the outcome it delivers, a value or a
  raised exception, supplied as an argument of the model.
\<close>

subsection \<open>Numbers and their rendering\<close>

text \<open>
  A sensor value is a finite binary floating-point number, sign, mantissa and exponent,
  of value \<open>(-1)^s * m * 2^e\<close>. Mantissa and exponent are unbounded, so the type holds
  every Python float that is finite and every integer exactly (a DHT11 delivers integers
  between 0 and 255, which \<^verbatim>\<open>:.1f\<close> renders through their float value).
\<close>

datatype pyfloat = Float (negative: bool) (mantissa: nat) (exponent: int)


definition digit_char :: "nat \<Rightarrow> char" where
  "digit_char d = ''0123456789'' ! d"

fun digits10 :: "nat \<Rightarrow> string" where
  "digits10 n = (if n < 10 then [digit_char n] else digits10 (n div 10) @ [digit_char (n mod 10)])"

declare digits10.simps [simp del]

text \<open>\<^verbatim>\<open>str(n)\<close> of an integer.\<close>

definition str_int :: "int \<Rightarrow> string" where
  "str_int n = (if n < 0 then ''-'' @ digits10 (nat (- n)) else digits10 (nat n))"

text \<open>
  \<open>round_tenths m e\<close> is \<open>m * 2^e * 10\<close> rounded to the nearest integer, ties to the even
  one: the correctly rounded conversion that the format specification \<^verbatim>\<open>.1f\<close> performs
  on the exact binary value.
\<close>

definition round_tenths :: "nat \<Rightarrow> int \<Rightarrow> nat" where
  "round_tenths m e =
     (if 0 \<le> e then m * 10 * 2 ^ nat e
      else let d = 2 ^ nat (- e); a = m * 10; q = a div d; r = a mod d
           in if d < 2 * r \<or> (2 * r = d \<and> odd q) then q + 1 else q)"

text \<open>\<^verbatim>\<open>format(x, ".1f")\<close>: the sign of a negative number is kept even when it rounds to zero.\<close>

definition format_1f :: "pyfloat \<Rightarrow> string" where
  "format_1f x =
     (let n = round_tenths (mantissa x) (exponent x)
      in (if negative x then ''-'' else '''') @ digits10 (n div 10) @ ''.'' @ [digit_char (n mod 10)])"

text \<open>The f-string of line 128 of \<^verbatim>\<open>main.py\<close>.\<close>

definition payload :: "pyfloat \<Rightarrow> pyfloat \<Rightarrow> string" where
  "payload temperature humidity =
     ''dht_sensor,sensor_id=esp8266 temperature='' @ format_1f temperature
       @ '',humidity='' @ format_1f humidity"




subsection \<open>Python values, exceptions and effects\<close>

text \<open>What \<^verbatim>\<open>json.load\<close> can deliver; a dict is its list of items, read with \<open>map_of\<close>.\<close>

datatype pyval =
    PyNone
  | PyBool bool
  | PyInt int
  | PyFloat pyfloat
  | PyStr string
  | PyList "pyval list"
  | PyDict "(string \<times> pyval) list"

text \<open>
  The exception classes that the program names or can meet, with the two subclass
  relations among them that matter to its \<^verbatim>\<open>except\<close> clauses; an exception carries its
  \<^verbatim>\<open>str()\<close>. \<^verbatim>\<open>SystemExit\<close> is not an \<^verbatim>\<open>Exception\<close> and carries the exit code.
\<close>

datatype exn_class =
  OSError | FileNotFoundError | ValueError | JSONDecodeError | AttributeError | TypeError | OtherError

datatype exn = Raised exn_class string | SystemExit int

definition issubclass :: "exn_class \<Rightarrow> exn_class \<Rightarrow> bool" where
  "issubclass c d =
     (c = d \<or> (c = FileNotFoundError \<and> d = OSError) \<or> (c = JSONDecodeError \<and> d = ValueError))"

fun isinstance :: "exn \<Rightarrow> exn_class \<Rightarrow> bool" where
  "isinstance (Raised c msg) d = issubclass c d"
| "isinstance (SystemExit code) d = False"

fun exn_str :: "exn \<Rightarrow> string" where
  "exn_str (Raised c msg) = msg"
| "exn_str (SystemExit code) = str_int code"

text \<open>The status with which the interpreter ends when the exception reaches the top level.\<close>

fun exit_status :: "exn \<Rightarrow> int" where
  "exit_status (SystemExit code) = code"
| "exit_status (Raised c msg) = 1"

type_synonym headers = "(string \<times> string) list"

text \<open>The calls into the outside world, in the order the program makes them.\<close>

datatype event =
    Print string
  | Sleep pyval
  | WlanActive bool
  | WlanConnect pyval pyval
  | SensorInit int
  | Measure
  | Post string headers string

text \<open>
  A computation delivers a value or raises, and leaves the trace of the events it
  performed before that.
\<close>

type_synonym 'a io = "(exn + 'a) \<times> event list"

definition io_return :: "'a \<Rightarrow> 'a io" where
  "io_return x = (Inr x, [])"

definition io_raise :: "exn \<Rightarrow> 'a io" where
  "io_raise e = (Inl e, [])"

definition io_emit :: "event \<Rightarrow> unit io" where
  "io_emit ev = (Inr (), [ev])"

definition io_lift :: "exn + 'a \<Rightarrow> 'a io" where
  "io_lift r = (r, [])"

definition io_bind :: "'a io \<Rightarrow> ('a \<Rightarrow> 'b io) \<Rightarrow> 'b io" where
  "io_bind m f =
     (case m of
        (Inl e, tr) \<Rightarrow> (Inl e, tr)
      | (Inr x, tr) \<Rightarrow> (case f x of (r, tr') \<Rightarrow> (r, tr @ tr')))"

text \<open>\<^verbatim>\<open>d.get(k, default)\<close>; only a dict has the method.\<close>

definition dict_get :: "pyval \<Rightarrow> string \<Rightarrow> pyval \<Rightarrow> exn + pyval" where
  "dict_get d k dflt =
     (case d of
        PyDict items \<Rightarrow> Inr (case map_of items k of Some v \<Rightarrow> v | None \<Rightarrow> dflt)
      | _ \<Rightarrow> Inl (Raised AttributeError ''object has no attribute get''))"

text \<open>
  \<^verbatim>\<open>str(v)\<close>, as a replacement field of an f-string or of \<^verbatim>\<open>str.format\<close> renders a value.
  The text of a float, a list or a dict is left to the parameter \<open>repr\<close>.
\<close>

fun py_str :: "(pyval \<Rightarrow> string) \<Rightarrow> pyval \<Rightarrow> string" where
  "py_str repr PyNone = ''None''"
| "py_str repr (PyBool b) = (if b then ''True'' else ''False'')"
| "py_str repr (PyInt n) = str_int n"
| "py_str repr (PyStr s) = s"
| "py_str repr v = repr v"

text \<open>
  \<^verbatim>\<open>time.sleep(secs)\<close> takes a number that is not negative (\<^verbatim>\<open>bool\<close> is a subclass of
  \<^verbatim>\<open>int\<close>).
\<close>

definition time_sleep :: "pyval \<Rightarrow> unit io" where
  "time_sleep secs =
     (case secs of
        PyInt n \<Rightarrow>
          if n < 0 then io_raise (Raised ValueError ''sleep length must be non-negative'')
          else io_emit (Sleep secs)
      | PyBool b \<Rightarrow> io_emit (Sleep secs)
      | PyFloat x \<Rightarrow>
          if negative x \<and> 0 < mantissa x
          then io_raise (Raised ValueError ''sleep length must be non-negative'')
          else io_emit (Sleep secs)
      | _ \<Rightarrow> io_raise (Raised TypeError ''an integer or float is required''))"

section \<open>The functions of main.py\<close>

subsection \<open>load_config\<close>

text \<open>
  \<open>read_json path\<close> is the outcome of the body of the \<^verbatim>\<open>try\<close>, opening the file and
  parsing it: the parsed value, or the exception that \<^verbatim>\<open>open\<close> or \<^verbatim>\<open>json.load\<close> raised.
\<close>

definition quote :: char where
  "quote = CHR 0x27"

definition load_config :: "(string \<Rightarrow> exn + pyval) \<Rightarrow> string \<Rightarrow> pyval io" where
  "load_config read_json config_file =
     (case read_json config_file of
        Inr parsed \<Rightarrow> io_return parsed
      | Inl e \<Rightarrow>
          if isinstance e FileNotFoundError then
            io_bind (io_emit (Print (''Error: Config file '' @ [quote] @ config_file @ [quote] @ '' not found.'')))
              (\<lambda>_. io_return (PyDict []))
          else if isinstance e JSONDecodeError then
            io_bind (io_emit (Print (''Error: Invalid JSON format in config file '' @ [quote] @ config_file @ [quote] @ ''.'')))
              (\<lambda>_. io_return (PyDict []))
          else io_raise e)"

subsection \<open>connect_to_wifi\<close>

text \<open>
  The radio: \<open>associated\<close> is what \<^verbatim>\<open>isconnected()\<close> answers before \<^verbatim>\<open>connect\<close> is
  called, \<open>link t\<close> what it answers at clock time \<open>t\<close> afterwards. The clock counts
  seconds; \<^verbatim>\<open>time.sleep(1)\<close> advances it by one and nothing else advances it.
\<close>

record wlan =
  associated :: bool
  link :: "int \<Rightarrow> bool"
  ifconfig :: string

text \<open>The \<^verbatim>\<open>while\<close> loop of lines 32 to 36; it returns the answer and the clock at the return.\<close>

function wait_for_link :: "(int \<Rightarrow> bool) \<Rightarrow> int \<Rightarrow> int \<Rightarrow> int \<Rightarrow> (bool \<times> int) io" where
  "wait_for_link isconnected start_time timeout_sec now =
     (if isconnected now then io_return (True, now)
      else if now - start_time > timeout_sec then
        io_bind (io_emit (Print ''Connection timed out.'')) (\<lambda>_. io_return (False, now))
      else
        io_bind (time_sleep (PyInt 1))
          (\<lambda>_. wait_for_link isconnected start_time timeout_sec (now + 1)))"
  by pat_completeness auto
termination
  by (relation "measure (\<lambda>(isconnected, start_time, timeout_sec, now). nat (start_time + timeout_sec + 1 - now))") auto

declare wait_for_link.simps [simp del]

definition connect_to_wifi :: "wlan \<Rightarrow> int \<Rightarrow> pyval \<Rightarrow> pyval \<Rightarrow> int \<Rightarrow> (bool \<times> int) io" where
  "connect_to_wifi w clock ssid key timeout_sec =
     io_bind (io_emit (WlanActive True)) (\<lambda>_.
       if \<not> associated w then
         io_bind (io_emit (Print ''Connecting to network...'')) (\<lambda>_.
         io_bind (io_emit (WlanConnect ssid key)) (\<lambda>_.
           wait_for_link (link w) clock timeout_sec clock))
       else io_return (True, clock))"

subsection \<open>init_dht_sensor\<close>

text \<open>\<open>new_sensor pin\<close> is the exception, if any, that constructing the pin or the driver raises.\<close>

definition init_dht_sensor :: "(int \<Rightarrow> exn option) \<Rightarrow> int \<Rightarrow> unit io" where
  "init_dht_sensor new_sensor pin =
     io_bind (io_emit (SensorInit pin)) (\<lambda>_.
       case new_sensor pin of
         None \<Rightarrow> io_return ()
       | Some e \<Rightarrow>
           if isinstance e ValueError then
             io_raise (Raised ValueError (''Invalid pin number: '' @ str_int pin))
           else if isinstance e OSError then
             io_raise (Raised OSError ''Error initializing DHT11 sensor'')
           else io_raise e)"

subsection \<open>get_temperature_and_humidity\<close>

text \<open>
  What the driver does at one sampling: whether \<^verbatim>\<open>measure()\<close> raises, and what
  \<^verbatim>\<open>temperature()\<close> and \<^verbatim>\<open>humidity()\<close> deliver.
\<close>

datatype sensor_io =
  SensorIO (measure_raises: "exn option") (temperature_of: "exn + pyfloat") (humidity_of: "exn + pyfloat")

text \<open>The body of the \<^verbatim>\<open>try\<close>.\<close>

definition read_sensor :: "sensor_io \<Rightarrow> (pyfloat \<times> pyfloat) io" where
  "read_sensor sensor =
     io_bind (io_emit Measure) (\<lambda>_.
     io_bind (io_lift (case measure_raises sensor of Some e \<Rightarrow> Inl e | None \<Rightarrow> Inr ())) (\<lambda>_.
     io_bind (io_lift (temperature_of sensor)) (\<lambda>temperature.
     io_bind (time_sleep (PyInt 1)) (\<lambda>_.
     io_bind (io_lift (humidity_of sensor)) (\<lambda>humidity.
       io_return (temperature, humidity))))))"

definition get_temperature_and_humidity :: "sensor_io \<Rightarrow> (pyfloat option \<times> pyfloat option) io" where
  "get_temperature_and_humidity sensor =
     (case read_sensor sensor of
        (Inr (temperature, humidity), tr) \<Rightarrow> (Inr (Some temperature, Some humidity), tr)
      | (Inl e, tr) \<Rightarrow>
          if isinstance e OSError then
            (Inr (None, None), tr @ [Print (''Error reading DHT11 sensor: '' @ exn_str e)])
          else (Inl e, tr))"

subsection \<open>set_influxdb_headers and get_influxdb_url\<close>

definition set_influxdb_headers :: "(pyval \<Rightarrow> string) \<Rightarrow> pyval \<Rightarrow> exn + headers" where
  "set_influxdb_headers repr config =
     (case dict_get config ''influxdb'' (PyDict []) of
        Inl e \<Rightarrow> Inl e
      | Inr influxdb_config \<Rightarrow>
          (case dict_get influxdb_config ''token'' PyNone of
             Inl e \<Rightarrow> Inl e
           | Inr token \<Rightarrow>
               Inr [(''Authorization'', ''Token '' @ py_str repr token),
                    (''Content-Type'', ''text/plain; charset=utf-8''),
                    (''Accept'', ''application/json'')]))"

definition get_influxdb_url :: "(pyval \<Rightarrow> string) \<Rightarrow> pyval \<Rightarrow> exn + string" where
  "get_influxdb_url repr config =
     (case dict_get config ''influxdb'' (PyDict []) of
        Inl e \<Rightarrow> Inl e
      | Inr influxdb_config \<Rightarrow>
          (case dict_get influxdb_config ''host'' (PyStr ''localhost'') of
             Inl e \<Rightarrow> Inl e
           | Inr host \<Rightarrow>
          (case dict_get influxdb_config ''port'' (PyInt 8086) of
             Inl e \<Rightarrow> Inl e
           | Inr port \<Rightarrow>
          (case dict_get influxdb_config ''bucket'' PyNone of
             Inl e \<Rightarrow> Inl e
           | Inr bucket \<Rightarrow>
          (case dict_get influxdb_config ''org'' PyNone of
             Inl e \<Rightarrow> Inl e
           | Inr org \<Rightarrow>
               Inr (py_str repr host @ '':'' @ py_str repr port @ ''/api/v2/write?org=''
                    @ py_str repr org @ ''&bucket='' @ py_str repr bucket @ ''&precision=ns''))))))"

subsection \<open>send_to_influxdb\<close>

datatype response = Response (status_code: int) (text_of: string)

text \<open>\<open>requests_post url headers data\<close> is what the POST delivers: a response, or an exception.\<close>

definition send_to_influxdb ::
    "(string \<Rightarrow> headers \<Rightarrow> string \<Rightarrow> exn + response) \<Rightarrow> string \<Rightarrow> headers \<Rightarrow> string \<Rightarrow> unit io" where
  "send_to_influxdb requests_post url hdrs data =
     io_bind (io_emit (Post url hdrs data)) (\<lambda>_.
     io_bind (io_lift (requests_post url hdrs data)) (\<lambda>response.
       if status_code response = 204 then io_emit (Print ''Data sent to InfluxDB'')
       else
         io_bind (io_emit (Print ''Failed to send data to InfluxDB'')) (\<lambda>_.
         io_bind (io_emit (Print (''Status code: '' @ str_int (status_code response)))) (\<lambda>_.
           io_emit (Print (''Response: '' @ text_of response))))))"

subsection \<open>The main program\<close>

definition DEFAULT_WAIT_TIME :: int where
  "DEFAULT_WAIT_TIME = 60"

text \<open>What the outside world does during one pass of the main loop.\<close>

record cycle_io =
  sensor :: sensor_io
  requests_post :: "string \<Rightarrow> headers \<Rightarrow> string \<Rightarrow> exn + response"

text \<open>Lines 134 and 135: the value handed to \<^verbatim>\<open>time.sleep\<close> at the end of a pass.\<close>

definition wait_time :: "pyval \<Rightarrow> exn + pyval" where
  "wait_time config = dict_get config ''reading_wait_time'' (PyInt DEFAULT_WAIT_TIME)"

text \<open>Lines 125 to 132: sample, and format and send when both values are present.\<close>

definition sample_and_send :: "string \<Rightarrow> headers \<Rightarrow> cycle_io \<Rightarrow> unit io" where
  "sample_and_send influxdb_url hdrs io =
     io_bind (get_temperature_and_humidity (sensor io)) (\<lambda>(temperature, humidity).
       case (temperature, humidity) of
         (Some t, Some h) \<Rightarrow>
           io_bind (io_emit (Print (''Data: '' @ payload t h))) (\<lambda>_.
             send_to_influxdb (requests_post io) influxdb_url hdrs (payload t h))
       | _ \<Rightarrow> io_return ())"

text \<open>One pass of the \<^verbatim>\<open>while True\<close> loop, lines 125 to 136.\<close>

definition cycle :: "pyval \<Rightarrow> string \<Rightarrow> headers \<Rightarrow> cycle_io \<Rightarrow> unit io" where
  "cycle config influxdb_url hdrs io =
     io_bind (sample_and_send influxdb_url hdrs io) (\<lambda>_.
     io_bind (io_lift (wait_time config)) (\<lambda>secs.
       time_sleep secs))"

text \<open>
  The loop has no exit of its own: it ends only when a pass raises. It is run against
  the behaviour of the outside world during the first passes, one entry for each; the
  result \<open>Inr ()\<close> says that all these passes were completed and the loop goes on.
\<close>

fun steady :: "pyval \<Rightarrow> string \<Rightarrow> headers \<Rightarrow> cycle_io list \<Rightarrow> unit io" where
  "steady config influxdb_url hdrs [] = io_return ()"
| "steady config influxdb_url hdrs (io # ios) =
     io_bind (cycle config influxdb_url hdrs io) (\<lambda>_. steady config influxdb_url hdrs ios)"

text \<open>
  The loop itself, against the behaviour of the outside world during every pass, the
  \<open>i\<close>-th pass first: the exception that ends it, or \<open>None\<close> when it runs for ever.
\<close>

partial_function (option) main_loop ::
    "pyval \<Rightarrow> string \<Rightarrow> headers \<Rightarrow> (nat \<Rightarrow> cycle_io) \<Rightarrow> nat \<Rightarrow> exn option" where
  "main_loop config influxdb_url hdrs world i =
     (case fst (cycle config influxdb_url hdrs (world i)) of
        Inl e \<Rightarrow> Some e
      | Inr u \<Rightarrow> main_loop config influxdb_url hdrs world (Suc i))"

text \<open>Everything outside that the start of the program meets.\<close>

record env =
  read_json :: "string \<Rightarrow> exn + pyval"
  radio :: wlan
  clock :: int
  new_sensor :: "int \<Rightarrow> exn option"
  repr_of :: "pyval \<Rightarrow> string"

text \<open>The block under \<^verbatim>\<open>if __name__ == "__main__"\<close>, lines 98 to 136.\<close>

definition main :: "env \<Rightarrow> cycle_io list \<Rightarrow> unit io" where
  "main world ios =
     io_bind (load_config (read_json world) ''config.json'') (\<lambda>config.
     io_bind (io_lift (dict_get config ''wifi'' (PyDict []))) (\<lambda>wifi_config.
     io_bind (io_lift (dict_get wifi_config ''ssid'' PyNone)) (\<lambda>ssid.
     io_bind (io_lift (dict_get wifi_config ''key'' PyNone)) (\<lambda>key.
     io_bind (connect_to_wifi (radio world) (clock world) ssid key 30) (\<lambda>(connected, now).
     io_bind
       (if connected then
          io_bind (io_emit (Print ''WiFi connected successfully.'')) (\<lambda>_.
            io_emit (Print (''Network config: '' @ ifconfig (radio world))))
        else
          io_bind (io_emit (Print ''Failed to connect to WiFi. Exiting...'')) (\<lambda>_.
            io_raise (SystemExit 1))) (\<lambda>_.
     io_bind (io_lift (set_influxdb_headers (repr_of world) config)) (\<lambda>hdrs.
     io_bind (io_lift (get_influxdb_url (repr_of world) config)) (\<lambda>influxdb_url.
     io_bind (init_dht_sensor (new_sensor world) 4) (\<lambda>_.
       steady config influxdb_url hdrs ios)))))))))"

text \<open>The events that touch the sensor or the endpoint.\<close>

fun sensor_or_endpoint :: "event \<Rightarrow> bool" where
  "sensor_or_endpoint (SensorInit pin) = True"
| "sensor_or_endpoint Measure = True"
| "sensor_or_endpoint (Post url hdrs data) = True"
| "sensor_or_endpoint ev = False"

text \<open>A rendering for the concrete runs below, in which no float, list or dict is rendered.\<close>

definition opaque_repr :: "pyval \<Rightarrow> string" where
  "opaque_repr v = ''<object>''"

section \<open>Properties\<close>

subsection \<open>The payload line\<close>













subsection \<open>Sequencing\<close>

lemma io_bind_return [simp]: "io_bind (io_return x) f = f x"
  by (simp add: io_bind_def io_return_def split: prod.splits)

lemma io_bind_raise [simp]: "io_bind (io_raise e) f = io_raise e"
  by (simp add: io_bind_def io_raise_def)

lemma io_bind_emit: "io_bind (io_emit ev) f = (fst (f ()), ev # snd (f ()))"
  by (simp add: io_bind_def io_emit_def split: prod.splits)

lemma io_bind_lift_Inr [simp]: "io_bind (io_lift (Inr x)) f = f x"
  by (simp add: io_bind_def io_lift_def split: prod.splits)

lemma io_bind_lift_Inl [simp]: "io_bind (io_lift (Inl e)) f = io_raise e"
  by (simp add: io_bind_def io_lift_def io_raise_def)

lemma io_bind_Inr: "io_bind (Inr x, tr) f = (fst (f x), tr @ snd (f x))"
  by (simp add: io_bind_def split: prod.splits)

lemma io_bind_Inl: "io_bind (Inl e, tr) f = (Inl e, tr)"
  by (simp add: io_bind_def)

lemma dict_get_PyDict:
  "dict_get (PyDict items) k dflt = Inr (case map_of items k of Some v \<Rightarrow> v | None \<Rightarrow> dflt)"
  by (simp add: dict_get_def)

lemma str_int_8086: "str_int 8086 = ''8086''"
  by (simp add: str_int_def digits10.simps digit_char_def)

subsection \<open>The endpoint\<close>

text \<open>
  Claim C2, as the program has it. For every configuration without an \<^verbatim>\<open>influxdb\<close>
  section, \<^verbatim>\<open>get_influxdb_url\<close> raises nothing and returns a URL with host
  \<^verbatim>\<open>localhost\<close> and port 8086 in which the parameters \<^verbatim>\<open>org\<close> and \<^verbatim>\<open>bucket\<close> carry the
  text \<^verbatim>\<open>None\<close>, the rendering of the absent values.
\<close>

theorem get_influxdb_url_defaults:
  assumes "map_of items ''influxdb'' = None"
  shows "get_influxdb_url repr (PyDict items) =
           Inr ''localhost:8086/api/v2/write?org=None&bucket=None&precision=ns''"
  using assms by (simp add: get_influxdb_url_def dict_get_PyDict str_int_8086)

theorem get_influxdb_url_defaults_witness:
  "map_of [(''wifi'', PyDict [])] ''influxdb'' = None
   \<and> get_influxdb_url opaque_repr (PyDict [(''wifi'', PyDict [])]) =
         Inr ''localhost:8086/api/v2/write?org=None&bucket=None&precision=ns''"
  using get_influxdb_url_defaults [of "[(''wifi'', PyDict [])]" opaque_repr] by simp

text \<open>
  The two parameters are not empty: with an empty configuration the URL is not the one
  whose \<^verbatim>\<open>org\<close> and \<^verbatim>\<open>bucket\<close> are empty.
\<close>

theorem get_influxdb_url_not_empty_params:
  "get_influxdb_url opaque_repr (PyDict []) =
     Inr ''localhost:8086/api/v2/write?org=None&bucket=None&precision=ns''
   \<and> get_influxdb_url opaque_repr (PyDict []) \<noteq>
     Inr ''localhost:8086/api/v2/write?org=&bucket=&precision=ns''"
  by (simp add: get_influxdb_url_def dict_get_PyDict str_int_8086)

subsection \<open>The headers\<close>

text \<open>
  Claim C10. For every configuration whose \<^verbatim>\<open>influxdb\<close> section is absent or a mapping,
  \<^verbatim>\<open>set_influxdb_headers\<close> returns exactly the three headers \<^verbatim>\<open>Authorization\<close>,
  \<^verbatim>\<open>Content-Type\<close> fixed to \<^verbatim>\<open>text/plain; charset=utf-8\<close> and \<^verbatim>\<open>Accept\<close> fixed to
  \<^verbatim>\<open>application/json\<close>; when the token is absent the \<^verbatim>\<open>Authorization\<close> value is the
  literal \<^verbatim>\<open>Token None\<close>.
\<close>

theorem set_influxdb_headers_three:
  assumes "map_of items ''influxdb'' = None \<and> section = []
           \<or> map_of items ''influxdb'' = Some (PyDict section)"
  shows "set_influxdb_headers repr (PyDict items) =
           Inr [(''Authorization'',
                   ''Token '' @ py_str repr (case map_of section ''token'' of Some v \<Rightarrow> v | None \<Rightarrow> PyNone)),
                (''Content-Type'', ''text/plain; charset=utf-8''),
                (''Accept'', ''application/json'')]
         \<and> (map_of section ''token'' = None \<longrightarrow>
              set_influxdb_headers repr (PyDict items) =
                Inr [(''Authorization'', ''Token None''),
                     (''Content-Type'', ''text/plain; charset=utf-8''),
                     (''Accept'', ''application/json'')])"
  using assms by (auto simp: set_influxdb_headers_def dict_get_PyDict)

theorem set_influxdb_headers_three_witness:
  "set_influxdb_headers opaque_repr (PyDict [(''influxdb'', PyDict [(''host'', PyStr ''db.local'')])]) =
     Inr [(''Authorization'', ''Token None''),
          (''Content-Type'', ''text/plain; charset=utf-8''),
          (''Accept'', ''application/json'')]
   \<and> set_influxdb_headers opaque_repr (PyDict []) =
     Inr [(''Authorization'', ''Token None''),
          (''Content-Type'', ''text/plain; charset=utf-8''),
          (''Accept'', ''application/json'')]"
  using set_influxdb_headers_three
          [of "[(''influxdb'', PyDict [(''host'', PyStr ''db.local'')])]" "[(''host'', PyStr ''db.local'')]" opaque_repr]
        set_influxdb_headers_three [of "[]" "[]" opaque_repr]
  by simp

subsection \<open>Loading the configuration\<close>

text \<open>
  Claim C8. \<^verbatim>\<open>load_config\<close> returns the empty mapping, and raises nothing, when the file
  is not found and when its content is malformed, printing a diagnostic that tells the
  two apart; for a well-formed file it returns the parsed value and prints nothing.
\<close>

theorem load_config_cases:
  "(reader path = Inl (Raised FileNotFoundError msg) \<longrightarrow>
      load_config reader path =
        (Inr (PyDict []),
         [Print (''Error: Config file '' @ [quote] @ path @ [quote] @ '' not found.'')]))
   \<and> (reader path = Inl (Raised JSONDecodeError msg) \<longrightarrow>
      load_config reader path =
        (Inr (PyDict []),
         [Print (''Error: Invalid JSON format in config file '' @ [quote] @ path @ [quote] @ ''.'')]))
   \<and> (reader path = Inr parsed \<longrightarrow> load_config reader path = (Inr parsed, []))
   \<and> ''Error: Config file '' @ [quote] @ path @ [quote] @ '' not found.''
         \<noteq> ''Error: Invalid JSON format in config file '' @ [quote] @ path @ [quote] @ ''.''"
  by (simp add: load_config_def issubclass_def io_bind_emit io_return_def)

theorem load_config_cases_witness:
  "load_config (\<lambda>p. Inl (Raised FileNotFoundError ''No such file or directory'')) ''config.json'' =
     (Inr (PyDict []),
      [Print (''Error: Config file '' @ [quote] @ ''config.json'' @ [quote] @ '' not found.'')])
   \<and> load_config (\<lambda>p. Inl (Raised JSONDecodeError ''Expecting value'')) ''config.json'' =
     (Inr (PyDict []),
      [Print (''Error: Invalid JSON format in config file '' @ [quote] @ ''config.json'' @ [quote] @ ''.'')])
   \<and> load_config (\<lambda>p. Inr (PyDict [(''reading_wait_time'', PyInt 5)])) ''config.json'' =
     (Inr (PyDict [(''reading_wait_time'', PyInt 5)]), [])"
  using load_config_cases
          [of "\<lambda>p. Inl (Raised FileNotFoundError ''No such file or directory'')" "''config.json''"
              "''No such file or directory''"]
        load_config_cases
          [of "\<lambda>p. Inl (Raised JSONDecodeError ''Expecting value'')" "''config.json''" "''Expecting value''"]
        load_config_cases
          [of "\<lambda>p. Inr (PyDict [(''reading_wait_time'', PyInt 5)])" "''config.json''" _
              "PyDict [(''reading_wait_time'', PyInt 5)]"]
  by simp

subsection \<open>Sampling\<close>

lemma time_sleep_1: "time_sleep (PyInt 1) = io_emit (Sleep (PyInt 1))"
  by (simp add: time_sleep_def)

lemma read_sensor_cases:
  "read_sensor (SensorIO m t h) =
     (case m of
        Some e \<Rightarrow> (Inl e, [Measure])
      | None \<Rightarrow>
          (case t of
             Inl e \<Rightarrow> (Inl e, [Measure])
           | Inr tv \<Rightarrow>
               (case h of
                  Inl e \<Rightarrow> (Inl e, [Measure, Sleep (PyInt 1)])
                | Inr hv \<Rightarrow> (Inr (tv, hv), [Measure, Sleep (PyInt 1)]))))"
  by (simp add: read_sensor_def time_sleep_1 io_bind_emit io_raise_def io_return_def
           split: option.splits sum.splits)

text \<open>
  Claim C4. A call of \<^verbatim>\<open>get_temperature_and_humidity\<close> that returns delivers two numbers
  or \<^verbatim>\<open>None\<close> twice, never one of each; and when the measurement or one of the two reads
  raises an \<^verbatim>\<open>OSError\<close>, the call prints the diagnostic and returns \<^verbatim>\<open>(None, None)\<close>.
\<close>

theorem get_temperature_and_humidity_all_or_nothing:
  "(get_temperature_and_humidity s = (Inr (temperature, humidity), tr) \<longrightarrow>
      (temperature = None \<and> humidity = None)
      \<or> (\<exists>t h. temperature = Some t \<and> humidity = Some h))
   \<and> (fst (read_sensor s) = Inl e \<and> isinstance e OSError \<longrightarrow>
      get_temperature_and_humidity s =
        (Inr (None, None),
         snd (read_sensor s) @ [Print (''Error reading DHT11 sensor: '' @ exn_str e)]))"
  by (cases "read_sensor s")
     (auto simp: get_temperature_and_humidity_def split: sum.splits prod.splits if_splits)

theorem get_temperature_and_humidity_all_or_nothing_witness:
  "get_temperature_and_humidity
       (SensorIO None (Inr (Float False 21 0)) (Inl (Raised OSError ''[Errno 110] ETIMEDOUT''))) =
     (Inr (None, None),
      [Measure, Sleep (PyInt 1), Print ''Error reading DHT11 sensor: [Errno 110] ETIMEDOUT''])
   \<and> get_temperature_and_humidity (SensorIO None (Inr (Float False 21 0)) (Inr (Float False 40 0))) =
     (Inr (Some (Float False 21 0), Some (Float False 40 0)), [Measure, Sleep (PyInt 1)])"
proof -
  have a: "get_temperature_and_humidity (SensorIO None (Inr (Float False 21 0)) (Inr (Float False 40 0))) =
     (Inr (Some (Float False 21 0), Some (Float False 40 0)), [Measure, Sleep (PyInt 1)])"
    by (simp add: get_temperature_and_humidity_def read_sensor_cases)
  show ?thesis
    using get_temperature_and_humidity_all_or_nothing
            [of "SensorIO None (Inr (Float False 21 0)) (Inl (Raised OSError ''[Errno 110] ETIMEDOUT''))"
                None None _ "Raised OSError ''[Errno 110] ETIMEDOUT''"]
          get_temperature_and_humidity_all_or_nothing
            [of "SensorIO None (Inr (Float False 21 0)) (Inr (Float False 40 0))"
                "Some (Float False 21 0)" "Some (Float False 40 0)" "[Measure, Sleep (PyInt 1)]"]
          a
    by (simp add: read_sensor_cases issubclass_def)
qed




subsection \<open>Delivery\<close>

text \<open>
  Claim C5. When the POST delivers a response, \<^verbatim>\<open>send_to_influxdb\<close> returns without
  raising; it reports success for status 204 and for no other status, and for every other
  status it prints the failure with the status code and the body of the response.
\<close>

theorem send_to_influxdb_classifies:
  "post url hdrs data = Inr response \<longrightarrow>
     send_to_influxdb post url hdrs data =
       (Inr (),
        Post url hdrs data #
        (if status_code response = 204 then [Print ''Data sent to InfluxDB'']
         else [Print ''Failed to send data to InfluxDB'',
               Print (''Status code: '' @ str_int (status_code response)),
               Print (''Response: '' @ text_of response)]))"
  by (simp add: send_to_influxdb_def io_bind_def io_emit_def io_lift_def)

lemma str_int_500: "str_int 500 = ''500''"
  by (simp add: str_int_def digits10.simps digit_char_def)

theorem send_to_influxdb_classifies_witness:
  "send_to_influxdb (\<lambda>url hdrs data. Inr (Response 204 '''')) ''db.local:9999/api'' [] ''x'' =
     (Inr (), [Post ''db.local:9999/api'' [] ''x'', Print ''Data sent to InfluxDB''])
   \<and> send_to_influxdb (\<lambda>url hdrs data. Inr (Response 500 ''bad request'')) ''db.local:9999/api'' [] ''x'' =
     (Inr (), [Post ''db.local:9999/api'' [] ''x'', Print ''Failed to send data to InfluxDB'',
               Print ''Status code: 500'', Print ''Response: bad request''])"
  using send_to_influxdb_classifies
          [of "\<lambda>url hdrs data. Inr (Response 204 '''')" "''db.local:9999/api''" "[]" "''x''" "Response 204 ''''"]
        send_to_influxdb_classifies
          [of "\<lambda>url hdrs data. Inr (Response 500 ''bad request'')" "''db.local:9999/api''" "[]" "''x''"
              "Response 500 ''bad request''"]
  by (simp add: str_int_500)

subsection \<open>The wait between two passes\<close>




subsection \<open>Joining the network\<close>

lemma replicate_nat_step: "0 < k \<Longrightarrow> replicate (nat k) x = x # replicate (nat (k - 1)) x"
proof -
  assume "0 < k"
  then have "nat k = Suc (nat (k - 1))" by simp
  then show ?thesis by simp
qed

text \<open>When the link never comes up, the loop sleeps until the clock has passed the timeout.\<close>

lemma wait_for_link_never:
  assumes "\<And>t. \<not> isconnected t"
  shows "wait_for_link isconnected start_time timeout_sec now =
           (Inr (False, max now (start_time + timeout_sec + 1)),
            replicate (nat (start_time + timeout_sec + 1 - now)) (Sleep (PyInt 1))
              @ [Print ''Connection timed out.''])"
  using assms
proof (induction isconnected start_time timeout_sec now rule: wait_for_link.induct)
  case (1 isconnected start_time timeout_sec now)
  show ?case
  proof (cases "now - start_time > timeout_sec")
    case True
    then show ?thesis
      using 1(2) by (subst wait_for_link.simps) (simp add: io_bind_emit io_return_def max_def)
  next
    case False
    have ih: "wait_for_link isconnected start_time timeout_sec (now + 1) =
           (Inr (False, max (now + 1) (start_time + timeout_sec + 1)),
            replicate (nat (start_time + timeout_sec + 1 - (now + 1))) (Sleep (PyInt 1))
              @ [Print ''Connection timed out.''])"
      by (rule 1(1)) (use 1(2) False in simp_all)
    have pos: "0 < start_time + timeout_sec + 1 - now" using False by simp
    have rep: "replicate (nat (start_time + timeout_sec + 1 - now)) (Sleep (PyInt 1)) =
                 Sleep (PyInt 1) # replicate (nat (start_time + timeout_sec + 1 - (now + 1))) (Sleep (PyInt 1))"
      using replicate_nat_step [OF pos] by (simp add: algebra_simps)
    show ?thesis
      using False 1(2)
      by (subst wait_for_link.simps) (simp add: time_sleep_1 io_bind_emit ih rep max_def)
  qed
qed

text \<open>Whatever the link does, the loop returns, and no later than one second past the timeout.\<close>

lemma wait_for_link_bounded:
  "\<exists>b now' tr. wait_for_link isconnected start_time timeout_sec now = (Inr (b, now'), tr)
     \<and> now \<le> now' \<and> now' \<le> max now (start_time + timeout_sec + 1) \<and> (b = isconnected now')"
proof (induction isconnected start_time timeout_sec now rule: wait_for_link.induct)
  case (1 isconnected start_time timeout_sec now)
  show ?case
  proof (cases "isconnected now")
    case True
    then show ?thesis by (subst wait_for_link.simps) (auto simp: io_return_def)
  next
    case nc: False
    show ?thesis
    proof (cases "now - start_time > timeout_sec")
      case True
      then show ?thesis
        using nc by (subst wait_for_link.simps) (auto simp: io_bind_emit io_return_def)
    next
      case False
      obtain b now' tr where
        r: "wait_for_link isconnected start_time timeout_sec (now + 1) = (Inr (b, now'), tr)"
        and b: "now + 1 \<le> now'" "now' \<le> max (now + 1) (start_time + timeout_sec + 1)"
               "b = isconnected now'"
        using 1 nc False by blast
      have "wait_for_link isconnected start_time timeout_sec now = (Inr (b, now'), Sleep (PyInt 1) # tr)"
        using nc False by (subst wait_for_link.simps) (simp add: time_sleep_1 io_bind_emit r)
      moreover have "now \<le> now'" "now' \<le> max now (start_time + timeout_sec + 1)"
        using b False by auto
      ultimately show ?thesis using b(3) by blast
    qed
  qed
qed

lemma connect_to_wifi_associated:
  "associated w \<Longrightarrow> connect_to_wifi w t0 ssid key timeout_sec = (Inr (True, t0), [WlanActive True])"
  by (simp add: connect_to_wifi_def io_bind_emit io_return_def)

lemma connect_to_wifi_never:
  assumes "\<not> associated w" and "\<And>t. \<not> link w t"
  shows "connect_to_wifi w t0 ssid key timeout_sec =
           (Inr (False, t0 + max 0 (timeout_sec + 1)),
            [WlanActive True, Print ''Connecting to network...'', WlanConnect ssid key]
              @ replicate (nat (timeout_sec + 1)) (Sleep (PyInt 1))
              @ [Print ''Connection timed out.''])"
proof -
  have "wait_for_link (link w) t0 timeout_sec t0 =
          (Inr (False, t0 + max 0 (timeout_sec + 1)),
           replicate (nat (timeout_sec + 1)) (Sleep (PyInt 1)) @ [Print ''Connection timed out.''])"
    using wait_for_link_never [of "link w" t0 timeout_sec t0] assms(2)
    by (simp add: max_def)
  then show ?thesis
    using assms(1) by (simp add: connect_to_wifi_def io_bind_emit)
qed

text \<open>
  Claim C6. \<^verbatim>\<open>connect_to_wifi\<close> returns success at once, without sleeping and without a
  connection attempt, when the interface is already associated. When the association
  never succeeds it makes one attempt, polls once per second, and returns failure when
  the clock has passed the timeout \<open>T\<close>, that is \<open>T + 1\<close> seconds after the start. Whatever
  the link does, the call returns within \<open>T + 1\<close> seconds of the clock.
\<close>

theorem connect_to_wifi_bounded:
  "(associated w \<longrightarrow>
      connect_to_wifi w t0 ssid key T = (Inr (True, t0), [WlanActive True]))
   \<and> (\<not> associated w \<and> (\<forall>t. \<not> link w t) \<and> 0 \<le> T \<longrightarrow>
      connect_to_wifi w t0 ssid key T =
        (Inr (False, t0 + T + 1),
         [WlanActive True, Print ''Connecting to network...'', WlanConnect ssid key]
           @ replicate (nat (T + 1)) (Sleep (PyInt 1))
           @ [Print ''Connection timed out.'']))
   \<and> (0 \<le> T \<longrightarrow>
      (\<exists>b now tr. connect_to_wifi w t0 ssid key T = (Inr (b, now), tr)
         \<and> t0 \<le> now \<and> now - t0 \<le> T + 1))"
proof (intro conjI impI)
  assume "associated w"
  then show "connect_to_wifi w t0 ssid key T = (Inr (True, t0), [WlanActive True])"
    by (rule connect_to_wifi_associated)
next
  assume a: "\<not> associated w \<and> (\<forall>t. \<not> link w t) \<and> 0 \<le> T"
  then show "connect_to_wifi w t0 ssid key T =
        (Inr (False, t0 + T + 1),
         [WlanActive True, Print ''Connecting to network...'', WlanConnect ssid key]
           @ replicate (nat (T + 1)) (Sleep (PyInt 1))
           @ [Print ''Connection timed out.''])"
    using connect_to_wifi_never [of w t0 ssid key T] by (simp add: max_def)
next
  assume T: "0 \<le> T"
  show "\<exists>b now tr. connect_to_wifi w t0 ssid key T = (Inr (b, now), tr)
         \<and> t0 \<le> now \<and> now - t0 \<le> T + 1"
  proof (cases "associated w")
    case True
    then show ?thesis using T by (auto simp: connect_to_wifi_associated)
  next
    case False
    obtain b now tr where
      r: "wait_for_link (link w) t0 T t0 = (Inr (b, now), tr)"
      and b: "t0 \<le> now" "now \<le> max t0 (t0 + T + 1)"
      using wait_for_link_bounded [of "link w" t0 T t0] by blast
    have "connect_to_wifi w t0 ssid key T =
            (Inr (b, now), WlanActive True # Print ''Connecting to network...'' # WlanConnect ssid key # tr)"
      using False by (simp add: connect_to_wifi_def io_bind_emit r)
    moreover have "now - t0 \<le> T + 1" using b T by simp
    ultimately show ?thesis using b(1) by blast
  qed
qed

theorem connect_to_wifi_bounded_witness:
  "connect_to_wifi \<lparr>associated = True, link = (\<lambda>t. False), ifconfig = ''''\<rparr> 100 (PyStr ''net'') (PyStr ''pw'') 30 =
     (Inr (True, 100), [WlanActive True])
   \<and> connect_to_wifi \<lparr>associated = False, link = (\<lambda>t. False), ifconfig = ''''\<rparr> 100 PyNone PyNone 30 =
     (Inr (False, 131),
      [WlanActive True, Print ''Connecting to network...'', WlanConnect PyNone PyNone]
        @ replicate 31 (Sleep (PyInt 1)) @ [Print ''Connection timed out.''])"
  using connect_to_wifi_bounded
          [of "\<lparr>associated = True, link = (\<lambda>t. False), ifconfig = ''''\<rparr>" 100 "PyStr ''net''" "PyStr ''pw''" 30]
        connect_to_wifi_bounded
          [of "\<lparr>associated = False, link = (\<lambda>t. False), ifconfig = ''''\<rparr>" 100 PyNone PyNone 30]
  by simp

subsection \<open>Start of the program\<close>

lemma wait_for_link_events:
  "\<not> list_ex sensor_or_endpoint (snd (wait_for_link isconnected start_time timeout_sec now))"
proof (induction isconnected start_time timeout_sec now rule: wait_for_link.induct)
  case (1 isconnected start_time timeout_sec now)
  show ?case
  proof (cases "isconnected now \<or> now - start_time > timeout_sec")
    case True
    then show ?thesis
      by (subst wait_for_link.simps) (auto simp: io_bind_emit io_return_def)
  next
    case False
    then have "\<not> list_ex sensor_or_endpoint (snd (wait_for_link isconnected start_time timeout_sec (now + 1)))"
      using 1 by simp
    then show ?thesis
      using False by (subst wait_for_link.simps) (simp add: time_sleep_1 io_bind_emit)
  qed
qed

lemma connect_to_wifi_events:
  "\<not> list_ex sensor_or_endpoint (snd (connect_to_wifi w t0 ssid key timeout_sec))"
  using wait_for_link_events [of "link w" t0 timeout_sec t0]
  by (simp add: connect_to_wifi_def io_bind_emit io_return_def)

lemma load_config_events:
  "\<not> list_ex sensor_or_endpoint (snd (load_config reader path))"
  by (simp add: load_config_def io_bind_emit io_return_def io_raise_def split: sum.splits)

text \<open>
  Claim C7. When the connection attempt at the start returns failure, the program ends
  with exit status 1, through \<^verbatim>\<open>sys.exit(1)\<close>; nothing is done after the attempt but one
  print: the headers and the URL are not built, the sensor is not initialised and
  nothing is sampled or sent.
\<close>

theorem main_exits_on_wifi_failure:
  assumes "load_config (read_json world) ''config.json'' = (Inr config, tr0)"
    and "dict_get config ''wifi'' (PyDict []) = Inr wifi_config"
    and "dict_get wifi_config ''ssid'' PyNone = Inr ssid"
    and "dict_get wifi_config ''key'' PyNone = Inr key"
    and "connect_to_wifi (radio world) (clock world) ssid key 30 = (Inr (False, now), tr1)"
  shows "main world ios =
           (Inl (SystemExit 1), tr0 @ tr1 @ [Print ''Failed to connect to WiFi. Exiting...''])
         \<and> (case fst (main world ios) of Inl e \<Rightarrow> exit_status e = 1 | Inr u \<Rightarrow> False)
         \<and> \<not> list_ex sensor_or_endpoint (snd (main world ios))"
proof -
  have m: "main world ios =
           (Inl (SystemExit 1), tr0 @ tr1 @ [Print ''Failed to connect to WiFi. Exiting...''])"
    using assms by (simp add: main_def io_bind_Inr io_bind_Inl io_bind_emit io_raise_def)
  have "\<not> list_ex sensor_or_endpoint tr0"
    using load_config_events [of "read_json world" "''config.json''"] assms(1) by simp
  moreover have "\<not> list_ex sensor_or_endpoint tr1"
    using connect_to_wifi_events [of "radio world" "clock world" ssid key 30] assms(5) by simp
  ultimately show ?thesis using m by simp
qed

text \<open>
  A start at which building the endpoint would raise, the section \<^verbatim>\<open>influxdb\<close> being a
  number, and at which the sensor would fail: the program ends with status 1 all the same.
\<close>

theorem main_exits_on_wifi_failure_witness:
  "main \<lparr>read_json = (\<lambda>p. Inr (PyDict [(''influxdb'', PyInt 5)])),
         radio = \<lparr>associated = False, link = (\<lambda>t. False), ifconfig = ''''\<rparr>,
         clock = 0,
         new_sensor = (\<lambda>pin. Some (Raised OSError ''no sensor'')),
         repr_of = opaque_repr\<rparr> [] =
     (Inl (SystemExit 1),
      [WlanActive True, Print ''Connecting to network...'', WlanConnect PyNone PyNone]
        @ replicate 31 (Sleep (PyInt 1))
        @ [Print ''Connection timed out.'', Print ''Failed to connect to WiFi. Exiting...''])"
proof -
  let ?w = "\<lparr>read_json = (\<lambda>p. Inr (PyDict [(''influxdb'', PyInt 5)])),
         radio = \<lparr>associated = False, link = (\<lambda>t. False), ifconfig = ''''\<rparr>,
         clock = 0,
         new_sensor = (\<lambda>pin. Some (Raised OSError ''no sensor'')),
         repr_of = opaque_repr\<rparr>"
  have c: "connect_to_wifi (radio ?w) (clock ?w) PyNone PyNone 30 =
             (Inr (False, 31),
              [WlanActive True, Print ''Connecting to network...'', WlanConnect PyNone PyNone]
                @ replicate 31 (Sleep (PyInt 1)) @ [Print ''Connection timed out.''])"
    using connect_to_wifi_never [of "radio ?w" "clock ?w" PyNone PyNone 30] by simp
  have l: "load_config (read_json ?w) ''config.json'' = (Inr (PyDict [(''influxdb'', PyInt 5)]), [])"
    by (simp add: load_config_def io_return_def)
  show ?thesis
    using main_exits_on_wifi_failure [OF l _ _ _ c, of "PyDict []" "[]"]
    by (simp add: dict_get_PyDict)
qed

subsection \<open>The main loop\<close>



lemma send_to_influxdb_raises:
  assumes "post url hdrs data = Inl e"
  shows "send_to_influxdb post url hdrs data = (Inl e, [Post url hdrs data])"
  using assms by (simp add: send_to_influxdb_def io_bind_emit io_raise_def)







text \<open>The loop ends only with an exception that one of its passes raises.\<close>

lemma main_loop_Some:
  assumes "main_loop config url hdrs world i = Some e"
  shows "\<exists>j. i \<le> j \<and> fst (cycle config url hdrs (world j)) = Inl e"
proof (rule main_loop.raw_induct
         [where P = "\<lambda>config url hdrs world i e. \<exists>j. i \<le> j \<and> fst (cycle config url hdrs (world j)) = Inl e",
          OF _ assms])
  fix f :: "pyval \<Rightarrow> string \<Rightarrow> headers \<Rightarrow> (nat \<Rightarrow> cycle_io) \<Rightarrow> nat \<Rightarrow> exn option"
  fix config url hdrs world i e
  assume ih: "\<And>config url hdrs world i e. f config url hdrs world i = Some e \<Longrightarrow>
                \<exists>j. i \<le> j \<and> fst (cycle config url hdrs (world j)) = Inl e"
    and step: "(case fst (cycle config url hdrs (world i)) of
                  Inl e \<Rightarrow> Some e
                | Inr u \<Rightarrow> f config url hdrs world (Suc i)) = Some e"
  show "\<exists>j. i \<le> j \<and> fst (cycle config url hdrs (world j)) = Inl e"
  proof (cases "fst (cycle config url hdrs (world i))")
    case (Inl x)
    then show ?thesis using step by auto
  next
    case (Inr u)
    then have "f config url hdrs world (Suc i) = Some e" using step by simp
    then obtain j where "Suc i \<le> j" "fst (cycle config url hdrs (world j)) = Inl e"
      using ih by blast
    then show ?thesis using Suc_leD by blast
  qed
qed


lemma main_loop_first_raise:
  assumes "fst (cycle config url hdrs (world i)) = Inl e"
  shows "main_loop config url hdrs world i = Some e"
  using assms by (subst main_loop.simps) simp

text \<open>The two views of the loop agree: it runs for ever when every prefix of passes is completed.\<close>

lemma fst_io_bind:
  "fst (io_bind m f) = (case fst m of Inl e \<Rightarrow> Inl e | Inr x \<Rightarrow> fst (f x))"
  by (cases m) (simp add: io_bind_def split: sum.splits prod.splits)

lemma steady_Inr_iff:
  "fst (steady config url hdrs ios) = Inr () \<longleftrightarrow>
     list_all (\<lambda>io. fst (cycle config url hdrs io) = Inr ()) ios"
  by (induction ios) (auto simp: fst_io_bind io_return_def split: sum.splits)

lemma main_loop_reaches:
  assumes "fst (cycle config url hdrs (world (i + k))) = Inl e"
  shows "main_loop config url hdrs world i \<noteq> None"
  using assms
proof (induction k arbitrary: i)
  case 0
  then show ?case using main_loop_first_raise [of config url hdrs world i e] by simp
next
  case (Suc k)
  show ?case
  proof (cases "fst (cycle config url hdrs (world i))")
    case (Inl x)
    then show ?thesis using main_loop_first_raise [of config url hdrs world i x] by simp
  next
    case (Inr u)
    have "main_loop config url hdrs world (Suc i) \<noteq> None"
      using Suc.IH [of "Suc i"] Suc.prems by simp
    then show ?thesis using Inr by (subst main_loop.simps) simp
  qed
qed

lemma main_loop_None_iff:
  "main_loop config url hdrs world i = None \<longleftrightarrow>
     (\<forall>j. i \<le> j \<longrightarrow> fst (cycle config url hdrs (world j)) = Inr ())"
proof
  assume n: "main_loop config url hdrs world i = None"
  show "\<forall>j. i \<le> j \<longrightarrow> fst (cycle config url hdrs (world j)) = Inr ()"
  proof (intro allI impI)
    fix j assume "i \<le> j"
    then obtain k where j: "j = i + k" using le_Suc_ex by blast
    show "fst (cycle config url hdrs (world j)) = Inr ()"
    proof (cases "fst (cycle config url hdrs (world j))")
      case (Inl e)
      then show ?thesis using main_loop_reaches [of config url hdrs world i k e] n j by simp
    next
      case (Inr u)
      then show ?thesis by simp
    qed
  qed
next
  assume "\<forall>j. i \<le> j \<longrightarrow> fst (cycle config url hdrs (world j)) = Inr ()"
  then show "main_loop config url hdrs world i = None"
    using main_loop_Some [of config url hdrs world i] by (cases "main_loop config url hdrs world i") auto
qed

lemma main_loop_steady:
  "main_loop config url hdrs world 0 = None \<longleftrightarrow>
     (\<forall>n. fst (steady config url hdrs (map world [0..<n])) = Inr ())"
proof
  assume "main_loop config url hdrs world 0 = None"
  then show "\<forall>n. fst (steady config url hdrs (map world [0..<n])) = Inr ()"
    by (simp add: main_loop_None_iff steady_Inr_iff list_all_iff)
next
  assume a: "\<forall>n. fst (steady config url hdrs (map world [0..<n])) = Inr ()"
  have "fst (cycle config url hdrs (world j)) = Inr ()" for j
  proof -
    have "list_all (\<lambda>io. fst (cycle config url hdrs io) = Inr ()) (map world [0..<Suc j])"
      using a steady_Inr_iff by blast
    then show ?thesis by (simp add: list_all_iff)
  qed
  then show "main_loop config url hdrs world 0 = None"
    by (simp add: main_loop_None_iff)
qed







end
